theory Spec2Isabelle
  imports Main "HOL-Library.Word" "HOL-Library.Finite_Map" "HOL-Library.AList"
begin

section \<open>Cache keys and the default key function\<close>

text \<open>
  A cache key is a Go value of type \<open>any\<close>. The constructors below are the dynamic types
  that \<open>DefaultKeyFunc\<close> tells apart, two further integer kinds, and one constructor for
  every other dynamic type (a struct, a pointer, ...), given by its type name and an opaque
  payload. Go strings are byte sequences, as \<open>string\<close> is here.
\<close>

datatype key =
    KString string
  | KBytes "8 word list"
  | KInt "64 word"
  | KInt64 "64 word"
  | KInt32 "32 word"
  | KUint "64 word"
  | KOther string nat

text \<open>
  \<open>strconv.FormatInt(i, 10)\<close> of the Go standard library: the decimal digits of the
  magnitude, most significant first, after a minus sign for a negative number.
\<close>

definition digit :: "nat \<Rightarrow> char" where
  "digit d = char_of (48 + d)"

function formatUint :: "nat \<Rightarrow> string" where
  "formatUint n = (if n < 10 then [digit n] else formatUint (n div 10) @ [digit (n mod 10)])"
  by pat_completeness auto
termination
  by (relation "measure (\<lambda>n. n)") auto

declare formatUint.simps [simp del]

definition FormatInt :: "int \<Rightarrow> string" where
  "FormatInt i = (if i < 0 then CHR ''-'' # formatUint (nat (- i)) else formatUint (nat i))"

definition Itoa :: "64 word \<Rightarrow> string" where
  "Itoa k = FormatInt (sint k)"




text \<open>
  \<open>DefaultKeyFunc\<close>. The fallback \<open>dump.ForHash\<close> belongs to a library outside the
  repository and is a parameter of the model.
\<close>

fun DefaultKeyFunc :: "(key \<Rightarrow> string) \<Rightarrow> key \<Rightarrow> string" where
  "DefaultKeyFunc forHash (KString k) = k"
| "DefaultKeyFunc forHash (KBytes k) = map (\<lambda>b. char_of (unat b)) k"
| "DefaultKeyFunc forHash (KInt k) = Itoa k"
| "DefaultKeyFunc forHash (KInt64 k) = FormatInt (sint k)"
| "DefaultKeyFunc forHash k = forHash k"

section \<open>Cache options and construction\<close>

text \<open>
  Times are nanoseconds since the epoch and durations are nanoseconds, both as integers.
  A function value that may be \<open>nil\<close> is an \<open>option\<close>.
\<close>

type_synonym time = int
type_synonym duration = int

definition Minute :: duration where
  "Minute = 60 * 1000000000"

definition defaultTTL :: duration where
  "defaultTTL = 5 * Minute"

record Options =
  TTL :: duration
  KeyFunc :: "(key \<Rightarrow> string) option"

text \<open>
  An \<open>Option\<close> is either the struct \<open>Options\<close> itself, whose \<open>ApplyTo\<close> copies only the
  fields that are set, or a \<open>FunctionalOption\<close>, a function that updates the target.
\<close>

datatype Option = StructOption Options | FunctionalOption "Options \<Rightarrow> Options"

fun ApplyTo :: "Option \<Rightarrow> Options \<Rightarrow> Options" where
  "ApplyTo (StructOption opts) target =
     (let t1 = (if TTL opts > 0 then target\<lparr>TTL := TTL opts\<rparr> else target)
      in if KeyFunc opts \<noteq> None then t1\<lparr>KeyFunc := KeyFunc opts\<rparr> else t1)"
| "ApplyTo (FunctionalOption f) target = f target"

definition WithTTL :: "duration \<Rightarrow> Option" where
  "WithTTL ttl = FunctionalOption (\<lambda>opts. opts\<lparr>TTL := ttl\<rparr>)"


record 'v entry =
  value' :: 'v
  expiration :: time

record 'v defaultCache =
  entries :: "(string, 'v entry) fmap"
  ttl :: duration
  keyFunc :: "(key \<Rightarrow> string) option"

text \<open>The options after the loop over \<open>opts\<close> in \<open>New\<close>.\<close>

definition applyAll :: "(key \<Rightarrow> string) \<Rightarrow> Option list \<Rightarrow> Options" where
  "applyAll forHash opts =
     foldl (\<lambda>options opt. ApplyTo opt options)
       \<lparr>TTL = defaultTTL, KeyFunc = Some (DefaultKeyFunc forHash)\<rparr> opts"

definition New :: "(key \<Rightarrow> string) \<Rightarrow> Option list \<Rightarrow> 'v defaultCache" where
  "New forHash opts =
     (let options = applyAll forHash opts;
          options = (if TTL options \<le> 0 then options\<lparr>TTL := defaultTTL\<rparr> else options);
          options = (if KeyFunc options = None
                     then options\<lparr>KeyFunc := Some (DefaultKeyFunc forHash)\<rparr> else options)
      in \<lparr>entries = fmempty, ttl = TTL options, keyFunc = KeyFunc options\<rparr>)"

section \<open>The TTL cache\<close>

text \<open>
  Calling a \<open>nil\<close> function value panics. \<open>time.Now()\<close> is the argument \<open>now\<close>, and the
  zero value of the type parameter is the argument \<open>zero\<close>. \<open>t.After(u)\<close> is \<open>u < t\<close>.
\<close>

datatype panic = NilFuncCall

definition After :: "time \<Rightarrow> time \<Rightarrow> bool" where
  "After t u = (u < t)"

definition defaultCache_Get ::
  "'v \<Rightarrow> 'v defaultCache \<Rightarrow> time \<Rightarrow> key \<Rightarrow> panic + (('v \<times> bool) \<times> 'v defaultCache)" where
  "defaultCache_Get zero c now k =
     (case keyFunc c of
        None \<Rightarrow> Inl NilFuncCall
      | Some f \<Rightarrow>
          (case fmlookup (entries c) (f k) of
             None \<Rightarrow> Inr ((zero, False), c)
           | Some val \<Rightarrow>
               if After now (expiration val) then Inr ((zero, False), c)
               else Inr ((value' val, True), c)))"

definition defaultCache_Set ::
  "'v defaultCache \<Rightarrow> time \<Rightarrow> key \<Rightarrow> 'v \<Rightarrow> panic + 'v defaultCache" where
  "defaultCache_Set c now k v =
     (case keyFunc c of
        None \<Rightarrow> Inl NilFuncCall
      | Some f \<Rightarrow>
          Inr (c\<lparr>entries := fmupd (f k) \<lparr>value' = v, expiration = now + ttl c\<rparr> (entries c)\<rparr>))"

text \<open>
  \<open>Sync\<close> visits every entry once and deletes the entry it is visiting when it has
  expired; what is left is the map filtered by the test.
\<close>

definition expired :: "time \<Rightarrow> (string, 'v entry) fmap \<Rightarrow> string \<Rightarrow> bool" where
  "expired now m s =
     (case fmlookup m s of None \<Rightarrow> False | Some val \<Rightarrow> After now (expiration val))"

definition defaultCache_Sync :: "'v defaultCache \<Rightarrow> time \<Rightarrow> 'v defaultCache" where
  "defaultCache_Sync c now =
     c\<lparr>entries := fmfilter (\<lambda>s. \<not> expired now (entries c) s) (entries c)\<rparr>"

definition entryCount :: "'v defaultCache \<Rightarrow> nat" where
  "entryCount c = fcard (fmdom (entries c))"

section \<open>The render cache\<close>

text \<open>
  The cached values are slices of \<open>unstructured.Unstructured\<close>; a slice that may be
  \<open>nil\<close> is an \<open>option\<close> of a list. \<open>Unstructured.DeepCopy\<close> belongs to a library outside
  the repository and is the parameter \<open>DeepCopy\<close>. The receiver may be \<open>nil\<close>, and so may
  its field.
\<close>

record 'o renderCache =
  cache :: "'o list option defaultCache option"

definition NewRenderCache :: "(key \<Rightarrow> string) \<Rightarrow> Option list \<Rightarrow> 'o renderCache option" where
  "NewRenderCache forHash opts = Some \<lparr>cache = Some (New forHash opts)\<rparr>"

definition renderCache_Get ::
  "('o \<Rightarrow> 'o) \<Rightarrow> 'o renderCache option \<Rightarrow> time \<Rightarrow> key
     \<Rightarrow> panic + (('o list option \<times> bool) \<times> 'o renderCache option)" where
  "renderCache_Get DeepCopy r now k =
     (case r of
        None \<Rightarrow> Inr ((None, False), r)
      | Some rc \<Rightarrow>
          (case cache rc of
             None \<Rightarrow> Inr ((None, False), r)
           | Some c \<Rightarrow>
               (case defaultCache_Get None c now k of
                  Inl p \<Rightarrow> Inl p
                | Inr ((cached, found), c') \<Rightarrow>
                    let r' = Some (rc\<lparr>cache := Some c'\<rparr>) in
                    if \<not> found then Inr ((None, False), r')
                    else (case cached of
                            None \<Rightarrow> Inr ((None, True), r')
                          | Some objs \<Rightarrow> Inr ((Some (map DeepCopy objs), True), r')))))"

definition renderCache_Set ::
  "('o \<Rightarrow> 'o) \<Rightarrow> 'o renderCache option \<Rightarrow> time \<Rightarrow> key \<Rightarrow> 'o list option
     \<Rightarrow> panic + 'o renderCache option" where
  "renderCache_Set DeepCopy r now k v =
     (case r of
        None \<Rightarrow> Inr r
      | Some rc \<Rightarrow>
          (case cache rc of
             None \<Rightarrow> Inr r
           | Some c \<Rightarrow>
               (case v of
                  None \<Rightarrow> map_sum id (\<lambda>c'. Some (rc\<lparr>cache := Some c'\<rparr>))
                            (defaultCache_Set c now k None)
                | Some objs \<Rightarrow> map_sum id (\<lambda>c'. Some (rc\<lparr>cache := Some c'\<rparr>))
                                (defaultCache_Set c now k (Some (map DeepCopy objs))))))"

definition renderCache_Sync :: "'o renderCache option \<Rightarrow> time \<Rightarrow> 'o renderCache option" where
  "renderCache_Sync r now =
     (case r of
        None \<Rightarrow> r
      | Some rc \<Rightarrow>
          (case cache rc of
             None \<Rightarrow> r
           | Some c \<Rightarrow> Some (rc\<lparr>cache := Some (defaultCache_Sync c now)\<rparr>)))"

section \<open>JSON-like trees: what clone and merge compute\<close>

text \<open>
  The values handled by package \<open>maps\<close> are Go values of type \<open>any\<close>. A tree is such a
  value read as its contents: a \<open>nil\<close> interface, a scalar, an opaque value (a pointer or
  another composite, known only by its identity), a map \<open>map[string]any\<close> that is \<open>nil\<close>
  or holds entries, or a slice that is \<open>nil\<close> or holds elements. The kind of a slice is
  its static type: \<open>[]any\<close>, one of the five typed slices the code names, or any other slice
  type, given by its name. A \<open>float64\<close> is kept as its 64 bits; nothing computes with it.
  The entries of a map are kept as a list of pairs and read with \<open>map_of\<close>; the order of
  the list stands for the order in which \<open>range\<close> happens to visit the map.

  This first model gives the value each function returns, without the question of which
  storage the value lives in; the heap model below answers that one.
\<close>

datatype scalar = SString string | SInt "64 word" | SInt64 "64 word" | SFloat64 "64 word" | SBool bool

datatype skind = AnyS | StringS | IntS | Int64S | Float64S | BoolS | OtherS string

datatype tree =
    TNil
  | TScalar scalar
  | TPtr nat
  | TNilMap
  | TMap "(string \<times> tree) list"
  | TNilSlice skind
  | TSlice skind "tree list"

text \<open>\<open>DeepCloneValue\<close>, case by case as in the type switch of the source.\<close>

fun DeepCloneValue :: "tree \<Rightarrow> tree" where
  "DeepCloneValue TNil = TNil"
| "DeepCloneValue TNilMap = TNilMap"
| "DeepCloneValue (TMap m) = TMap (map (\<lambda>(k, v). (k, DeepCloneValue v)) m)"
| "DeepCloneValue (TNilSlice AnyS) = TSlice AnyS []"
| "DeepCloneValue (TSlice AnyS val) = TSlice AnyS (map DeepCloneValue val)"
| "DeepCloneValue (TNilSlice k) = TSlice k []"
| "DeepCloneValue (TSlice k val) = TSlice k val"
| "DeepCloneValue v = v"

text \<open>
  The type assertion \<open>v.(map[string]any)\<close>: it succeeds for a map, a \<open>nil\<close> one included.
  \<open>boxMap\<close> goes the other way and stores a map in an \<open>any\<close>.
\<close>

fun asMap :: "tree \<Rightarrow> (string \<times> tree) list option option" where
  "asMap TNilMap = Some None"
| "asMap (TMap m) = Some (Some m)"
| "asMap v = None"

definition boxMap :: "(string \<times> tree) list option \<Rightarrow> tree" where
  "boxMap m = (case m of None \<Rightarrow> TNilMap | Some es \<Rightarrow> TMap es)"

definition DeepCloneMap :: "(string \<times> tree) list option \<Rightarrow> (string \<times> tree) list option" where
  "DeepCloneMap m = map_option (map (\<lambda>(k, v). (k, DeepCloneValue v))) m"

text \<open>
  \<open>DeepMerge\<close>: the first loop visits the entries of \<open>base\<close>, the second adds the entries
  of \<open>overlay\<close> whose key \<open>base\<close> does not have.
\<close>

function (sequential) DeepMerge :: "(string \<times> tree) list option \<Rightarrow> (string \<times> tree) list option
    \<Rightarrow> (string \<times> tree) list option" where
  "DeepMerge None None = Some []"
| "DeepMerge None (Some overlay) = DeepCloneMap (Some overlay)"
| "DeepMerge (Some base) None = DeepCloneMap (Some base)"
| "DeepMerge (Some base) (Some overlay) =
     Some (map (\<lambda>(k, baseValue). (k,
             case map_of overlay k of
               Some overlayValue \<Rightarrow>
                 (case (asMap baseValue, asMap overlayValue) of
                    (Some baseMap, Some overlayMap) \<Rightarrow>
                      boxMap (DeepMerge baseMap overlayMap)
                  | _ \<Rightarrow> DeepCloneValue overlayValue)
             | None \<Rightarrow> DeepCloneValue baseValue)) base
        @ map (\<lambda>(k, overlayValue). (k, DeepCloneValue overlayValue))
            (filter (\<lambda>(k, overlayValue). map_of base k = None) overlay))"
  by pat_completeness auto
termination
proof (relation "measure (\<lambda>(b, ov). case b of None \<Rightarrow> 0
                    | Some m \<Rightarrow> Suc (size_list (\<lambda>p. size (snd p)) m))", goal_cases)
  case 1
  show ?case by simp
next
  case (2 base overlay x k baseValue overlayValue xb ya baseMap overlayMap)
  then have mem: "(k, baseValue) \<in> set base" and am: "asMap baseValue = Some baseMap"
    by simp_all
  have le: "size baseValue \<le> size_list (\<lambda>p. size (snd p)) base"
    using mem size_list_estimation' [of "(k, baseValue)" base "size baseValue" "\<lambda>p. size (snd p)"]
    by simp
  have "(case baseMap of None \<Rightarrow> 0 | Some m \<Rightarrow> Suc (size_list (\<lambda>p. size (snd p)) m))
          \<le> size baseValue"
    using am
    by (cases baseValue) (auto simp add: size_list_conv_sum_list intro!: sum_list_mono)
  with le show ?case by simp
qed

section \<open>The heap model: where clone and merge put their results\<close>

text \<open>
  Maps and slices are references. A heap is a list of cells, an address is an index into it,
  and allocation appends a cell, so that a new address is the length of the heap before.
  A map value is \<open>nil\<close> or the address of a cell with the entries; a slice value is \<open>nil\<close> or
  the address of its backing array (a slice covers its whole array; re-slicing is not
  modelled). A pointer is opaque: its target is outside this heap.
\<close>

type_synonym addr = nat

datatype val =
    VNil
  | VScalar scalar
  | VPtr nat
  | VMapNil
  | VMap addr
  | VSliceNil skind
  | VSlice skind addr

datatype obj = MapObj "(string \<times> val) list" | ArrObj "val list"

type_synonym heap = "obj list"

definition load :: "heap \<Rightarrow> addr \<Rightarrow> obj option" where
  "load h a = (if a < length h then Some (h ! a) else None)"

definition alloc :: "heap \<Rightarrow> obj \<Rightarrow> heap \<times> addr" where
  "alloc h ob = (h @ [ob], length h)"

definition mapStore :: "heap \<Rightarrow> addr \<Rightarrow> string \<Rightarrow> val \<Rightarrow> heap" where
  "mapStore h a k v =
     (case load h a of Some (MapObj m) \<Rightarrow> h[a := MapObj (AList.update k v m)] | _ \<Rightarrow> h)"

definition sliceStore :: "heap \<Rightarrow> addr \<Rightarrow> nat \<Rightarrow> val \<Rightarrow> heap" where
  "sliceStore h a i v =
     (case load h a of Some (ArrObj xs) \<Rightarrow> h[a := ArrObj (xs[i := v])] | _ \<Rightarrow> h)"

text \<open>
  The loops. \<open>storeEach\<close> is \<open>for k, v := range m { ... result[k] = ... }\<close>: the body returns
  the heap it leaves and the value to store under \<open>k\<close>, or no value when the iteration stores
  nothing. \<open>cloneElems\<close> is \<open>for i, elem := range val { clone[i] = DeepCloneValue(elem) }\<close>.
\<close>

fun storeEach ::
  "(heap \<Rightarrow> string \<Rightarrow> val \<Rightarrow> (heap \<times> val option) option) \<Rightarrow> addr \<Rightarrow> heap
     \<Rightarrow> (string \<times> val) list \<Rightarrow> heap option" where
  "storeEach body result h [] = Some h"
| "storeEach body result h ((k, v) # m) =
     (case body h k v of
        None \<Rightarrow> None
      | Some (h', None) \<Rightarrow> storeEach body result h' m
      | Some (h', Some v') \<Rightarrow> storeEach body result (mapStore h' result k v') m)"

fun cloneElems ::
  "(heap \<Rightarrow> val \<Rightarrow> (heap \<times> val) option) \<Rightarrow> addr \<Rightarrow> nat \<Rightarrow> heap \<Rightarrow> val list
     \<Rightarrow> heap option" where
  "cloneElems f clone i h [] = Some h"
| "cloneElems f clone i h (elem # val) =
     (case f h elem of
        None \<Rightarrow> None
      | Some (h', v') \<Rightarrow> cloneElems f clone (Suc i) (sliceStore h' clone i v') val)"

text \<open>
  The recursion of \<open>DeepCloneValue\<close> and \<open>DeepCloneMap\<close> follows the references of the heap
  and need not end (a map may contain itself). The functions take the depth of calls they may
  still make; \<open>None\<close> means that the depth was used up, or that an address is dangling or has
  a cell of the wrong kind, which the type system of Go excludes.
  \<open>make\<close> followed by \<open>copy\<close>, and the loop over \<open>reflect\<close> indices, both fill a new
  array with the elements of the old one: \<open>copySlice\<close>.
\<close>

definition cloneMapWith ::
  "(heap \<Rightarrow> val \<Rightarrow> (heap \<times> val) option) \<Rightarrow> heap \<Rightarrow> addr option
     \<Rightarrow> (heap \<times> addr option) option" where
  "cloneMapWith f h m =
     (case m of
        None \<Rightarrow> Some (h, None)
      | Some a \<Rightarrow>
          (case load h a of
             Some (MapObj es) \<Rightarrow>
               (let (h1, result) = alloc h (MapObj [])
                in map_option (\<lambda>h2. (h2, Some result))
                     (storeEach (\<lambda>h k v. map_option (\<lambda>(h', v'). (h', Some v')) (f h v))
                        result h1 es))
           | _ \<Rightarrow> None))"

definition copySlice :: "heap \<Rightarrow> skind \<Rightarrow> addr \<Rightarrow> (heap \<times> val) option" where
  "copySlice h k a =
     (case load h a of
        Some (ArrObj val) \<Rightarrow> (let (h1, clone) = alloc h (ArrObj val) in Some (h1, VSlice k clone))
      | _ \<Rightarrow> None)"

definition boxMap_heap :: "addr option \<Rightarrow> val" where
  "boxMap_heap m = (case m of None \<Rightarrow> VMapNil | Some a \<Rightarrow> VMap a)"

fun cloneValueWith ::
  "(heap \<Rightarrow> val \<Rightarrow> (heap \<times> val) option) \<Rightarrow> heap \<Rightarrow> val \<Rightarrow> (heap \<times> val) option" where
  "cloneValueWith f h VNil = Some (h, VNil)"
| "cloneValueWith f h VMapNil = map_option (\<lambda>(h', r). (h', boxMap_heap r)) (cloneMapWith f h None)"
| "cloneValueWith f h (VMap a) = map_option (\<lambda>(h', r). (h', boxMap_heap r)) (cloneMapWith f h (Some a))"
| "cloneValueWith f h (VSliceNil k) =
     (let (h1, clone) = alloc h (ArrObj []) in Some (h1, VSlice k clone))"
| "cloneValueWith f h (VSlice AnyS a) =
     (case load h a of
        Some (ArrObj val) \<Rightarrow>
          (let (h1, clone) = alloc h (ArrObj (replicate (length val) VNil))
           in map_option (\<lambda>h2. (h2, VSlice AnyS clone)) (cloneElems f clone 0 h1 val))
      | _ \<Rightarrow> None)"
| "cloneValueWith f h (VSlice StringS a) = copySlice h StringS a"
| "cloneValueWith f h (VSlice IntS a) = copySlice h IntS a"
| "cloneValueWith f h (VSlice Int64S a) = copySlice h Int64S a"
| "cloneValueWith f h (VSlice Float64S a) = copySlice h Float64S a"
| "cloneValueWith f h (VSlice BoolS a) = copySlice h BoolS a"
| "cloneValueWith f h (VSlice (OtherS t) a) = copySlice h (OtherS t) a"
| "cloneValueWith f h v = Some (h, v)"

primrec DeepCloneValue_heap :: "nat \<Rightarrow> heap \<Rightarrow> val \<Rightarrow> (heap \<times> val) option" where
  "DeepCloneValue_heap 0 h v = None"
| "DeepCloneValue_heap (Suc n) h v = cloneValueWith (DeepCloneValue_heap n) h v"

definition DeepCloneMap_heap :: "nat \<Rightarrow> heap \<Rightarrow> addr option \<Rightarrow> (heap \<times> addr option) option" where
  "DeepCloneMap_heap n h m = cloneMapWith (DeepCloneValue_heap n) h m"

text \<open>\<open>DeepMerge\<close> on the heap: the bodies of its two loops, then the function.\<close>

definition asMap_heap :: "val \<Rightarrow> addr option option" where
  "asMap_heap v = (case v of VMapNil \<Rightarrow> Some None | VMap a \<Rightarrow> Some (Some a) | _ \<Rightarrow> None)"

definition mergeBody ::
  "(heap \<Rightarrow> addr option \<Rightarrow> addr option \<Rightarrow> (heap \<times> addr option) option)
     \<Rightarrow> (heap \<Rightarrow> val \<Rightarrow> (heap \<times> val) option) \<Rightarrow> (string \<times> val) list
     \<Rightarrow> heap \<Rightarrow> string \<Rightarrow> val \<Rightarrow> (heap \<times> val option) option" where
  "mergeBody merge clone overlay h k baseValue =
     (case map_of overlay k of
        Some overlayValue \<Rightarrow>
          (case (asMap_heap baseValue, asMap_heap overlayValue) of
             (Some baseMap, Some overlayMap) \<Rightarrow>
               map_option (\<lambda>(h', r). (h', Some (boxMap_heap r))) (merge h baseMap overlayMap)
           | _ \<Rightarrow> map_option (\<lambda>(h', v'). (h', Some v')) (clone h overlayValue))
      | None \<Rightarrow> map_option (\<lambda>(h', v'). (h', Some v')) (clone h baseValue))"

definition overlayBody ::
  "(heap \<Rightarrow> val \<Rightarrow> (heap \<times> val) option) \<Rightarrow> (string \<times> val) list
     \<Rightarrow> heap \<Rightarrow> string \<Rightarrow> val \<Rightarrow> (heap \<times> val option) option" where
  "overlayBody clone base h k overlayValue =
     (if map_of base k = None
      then map_option (\<lambda>(h', v'). (h', Some v')) (clone h overlayValue)
      else Some (h, None))"

primrec DeepMerge_heap ::
  "nat \<Rightarrow> heap \<Rightarrow> addr option \<Rightarrow> addr option \<Rightarrow> (heap \<times> addr option) option" where
  "DeepMerge_heap 0 h base overlay = None"
| "DeepMerge_heap (Suc n) h base overlay =
     (case (base, overlay) of
        (None, None) \<Rightarrow> (let (h1, result) = alloc h (MapObj []) in Some (h1, Some result))
      | (None, Some b) \<Rightarrow> DeepCloneMap_heap n h overlay
      | (Some a, None) \<Rightarrow> DeepCloneMap_heap n h base
      | (Some a, Some b) \<Rightarrow>
          (case (load h a, load h b) of
             (Some (MapObj baseEntries), Some (MapObj overlayEntries)) \<Rightarrow>
               (let (h1, result) = alloc h (MapObj [])
                in case storeEach
                          (mergeBody (DeepMerge_heap n) (DeepCloneValue_heap n) overlayEntries)
                          result h1 baseEntries of
                     None \<Rightarrow> None
                   | Some h2 \<Rightarrow>
                       map_option (\<lambda>h3. (h3, Some result))
                         (storeEach (overlayBody (DeepCloneValue_heap n) baseEntries)
                            result h2 overlayEntries))
           | _ \<Rightarrow> None))"

section \<open>Sample states\<close>

text \<open>
  \<open>expiringCache\<close> is the cache built with a TTL of 10 after one \<open>Set\<close> at time 0;
  \<open>sampleRender\<close> is a fresh render cache and \<open>sampleRenderNil\<close> the same after a \<open>nil\<close>
  slice was stored at time 0.
\<close>

definition expiringCache :: "nat defaultCache" where
  "expiringCache = \<lparr>entries = fmupd ''a'' \<lparr>value' = 7, expiration = 10\<rparr> fmempty,
                    ttl = 10, keyFunc = Some (DefaultKeyFunc (\<lambda>k. []))\<rparr>"

definition sampleRender :: "nat renderCache" where
  "sampleRender = \<lparr>cache = Some (New (\<lambda>k. []) [WithTTL 10])\<rparr>"

definition sampleRenderNil :: "nat renderCache" where
  "sampleRenderNil = \<lparr>cache = Some \<lparr>entries = fmupd ''a'' \<lparr>value' = None, expiration = 10\<rparr> fmempty,
      ttl = 10, keyFunc = Some (DefaultKeyFunc (\<lambda>k. []))\<rparr>\<rparr>"



definition sampleHeap :: heap where
  "sampleHeap = [MapObj [(''a'', VScalar (SInt 1)), (''m'', VMap 1), (''s'', VSlice AnyS 2), (''t'', VSlice StringS 3)],
         MapObj [(''x'', VScalar (SBool True))],
         ArrObj [VMap 1, VScalar (SString ''q'')],
         ArrObj [VScalar (SString ''u'')],
         MapObj [(''a'', VSlice IntS 5), (''m'', VMap 6), (''z'', VNil)],
         ArrObj [VScalar (SInt 1), VScalar (SInt 2)],
         MapObj [(''y'', VScalar (SBool False))]]"

section \<open>Properties of the key function\<close>










section \<open>Properties of cache construction\<close>



section \<open>Properties of the TTL cache\<close>

text \<open>
  C1: on any cache with a key function, \<open>Set\<close> followed by \<open>Get\<close> of the same key, at a time
  not after the insertion time plus the TTL, returns the stored value and \<open>true\<close>. The entry
  written has \<open>expiration = now + ttl\<close>, every other key keeps its entry, and a second \<open>Set\<close>
  to the key replaces the entry whole.
\<close>

theorem Set_then_Get:
  assumes "keyFunc c = Some f" and "now' \<le> now + ttl c"
  shows "\<exists>c'. defaultCache_Set c now k v = Inr c'
      \<and> defaultCache_Get zero c' now' k = Inr ((v, True), c')
      \<and> fmlookup (entries c') (f k) = Some \<lparr>value' = v, expiration = now + ttl c\<rparr>
      \<and> (\<forall>s. s \<noteq> f k \<longrightarrow> fmlookup (entries c') s = fmlookup (entries c) s)
      \<and> ttl c' = ttl c \<and> keyFunc c' = keyFunc c
      \<and> (\<forall>now2 v2. \<exists>c''. defaultCache_Set c' now2 k v2 = Inr c''
            \<and> fmlookup (entries c'') (f k) = Some \<lparr>value' = v2, expiration = now2 + ttl c\<rparr>)"
  using assms by (simp add: defaultCache_Set_def defaultCache_Get_def After_def)

theorem Set_then_Get_witness:
  "\<exists>c'. defaultCache_Set (New (\<lambda>k. []) [] :: nat defaultCache) 100 (KString ''a'') 7 = Inr c'
      \<and> defaultCache_Get 0 c' 101 (KString ''a'') = Inr ((7, True), c')
      \<and> fmlookup (entries c') ''a'' = Some \<lparr>value' = 7, expiration = 100 + defaultTTL\<rparr>"
proof -
  let ?c = "New (\<lambda>k. []) [] :: nat defaultCache"
  have k: "keyFunc ?c = Some (DefaultKeyFunc (\<lambda>k. []))"
    by (simp add: New_def applyAll_def Let_def)
  have t: "ttl ?c = defaultTTL"
    by (simp add: New_def applyAll_def Let_def defaultTTL_def Minute_def)
  have le: "(101::int) \<le> 100 + ttl ?c"
    by (simp add: t defaultTTL_def Minute_def)
  show ?thesis
    using Set_then_Get [OF k le, of "KString ''a''" 7 0] by (simp add: t) blast
qed

lemma expiringCache_built:
  "defaultCache_Set (New (\<lambda>k. []) [WithTTL 10]) 0 (KString ''a'') 7 = Inr expiringCache"
  by (simp add: defaultCache_Set_def New_def applyAll_def WithTTL_def Let_def expiringCache_def)

text \<open>
  C2, as the code has it: \<open>Get\<close> returns the zero value and \<open>false\<close> when the key has no
  entry or the time is strictly after the entry's expiration, and the cache it leaves is the
  cache it was given.
\<close>

theorem Get_miss_or_expired:
  assumes "keyFunc c = Some f"
    and "fmlookup (entries c) (f k) = None
         \<or> (\<exists>e. fmlookup (entries c) (f k) = Some e \<and> expiration e < now)"
  shows "defaultCache_Get zero c now k = Inr ((zero, False), c)"
  using assms by (auto simp add: defaultCache_Get_def After_def)

theorem Get_miss_or_expired_witness:
  "defaultCache_Get 0 expiringCache 11 (KString ''a'') = Inr ((0, False), expiringCache)
   \<and> defaultCache_Get 0 expiringCache 11 (KString ''b'') = Inr ((0, False), expiringCache)"
proof -
  have k: "keyFunc expiringCache = Some (DefaultKeyFunc (\<lambda>k. []))"
    by (simp add: expiringCache_def)
  have a: "fmlookup (entries expiringCache) (DefaultKeyFunc (\<lambda>k. []) (KString ''a'')) = None
     \<or> (\<exists>e. fmlookup (entries expiringCache) (DefaultKeyFunc (\<lambda>k. []) (KString ''a'')) = Some e
            \<and> expiration e < 11)"
    by (simp add: expiringCache_def)
  have b: "fmlookup (entries expiringCache) (DefaultKeyFunc (\<lambda>k. []) (KString ''b'')) = None
     \<or> (\<exists>e. fmlookup (entries expiringCache) (DefaultKeyFunc (\<lambda>k. []) (KString ''b'')) = Some e
            \<and> expiration e < 11)"
    by (simp add: expiringCache_def)
  show ?thesis
    using Get_miss_or_expired [OF k a, of 0] Get_miss_or_expired [OF k b, of 0] by simp
qed

text \<open>
  C2 as stated fails at the instant of expiry: at \<open>now = expiresAt\<close> the entry is still
  returned, because \<open>After\<close> is a strict comparison.
\<close>

theorem Get_at_expiry_counterexample:
  "defaultCache_Set (New (\<lambda>k. []) [WithTTL 10]) 0 (KString ''a'') 7 = Inr expiringCache
   \<and> fmlookup (entries expiringCache) ''a'' = Some \<lparr>value' = 7, expiration = 10\<rparr>
   \<and> defaultCache_Get 0 expiringCache 10 (KString ''a'') = Inr ((7, True), expiringCache)
   \<and> defaultCache_Get 0 expiringCache 10 (KString ''a'') \<noteq> Inr ((0, False), expiringCache)"
  by (simp add: defaultCache_Get_def defaultCache_Set_def New_def applyAll_def WithTTL_def
      Let_def expiringCache_def After_def)

lemma Sync_lookup:
  "fmlookup (entries (defaultCache_Sync c now)) s =
     (case fmlookup (entries c) s of
        None \<Rightarrow> None
      | Some e \<Rightarrow> if expiration e < now then None else Some e)"
  by (simp add: defaultCache_Sync_def expired_def After_def split: option.splits)

lemma Sync_count_less:
  assumes "fmlookup (entries c) s = Some e" and "expiration e < now"
  shows "entryCount (defaultCache_Sync c now) < entryCount c"
proof -
  let ?P = "\<lambda>s. \<not> expired now (entries c) s"
  have in_dom: "s |\<in>| fmdom (entries c)" using assms(1) by (simp add: fmdomI)
  have "\<not> ?P s" using assms by (simp add: expired_def After_def)
  then have "s |\<notin>| ffilter ?P (fmdom (entries c))" by simp
  moreover have "ffilter ?P (fmdom (entries c)) |\<subseteq>| fmdom (entries c)" by auto
  ultimately have "ffilter ?P (fmdom (entries c)) |\<subset>| fmdom (entries c)"
    using in_dom by blast
  then show ?thesis
    by (simp add: entryCount_def defaultCache_Sync_def pfsubset_fcard_mono)
qed

text \<open>
  C3, as the code has it: \<open>Sync\<close> deletes exactly the entries whose expiration is strictly
  before the time of the call. Such an entry is gone afterwards and the number of entries has
  dropped; an entry with \<open>now \<le> expiration\<close> stays as it is; no entry appears, and the TTL
  and the key function are untouched.
\<close>

theorem Sync_removes_expired:
  assumes "fmlookup (entries c) s = Some e"
  shows "(expiration e < now \<longrightarrow>
            fmlookup (entries (defaultCache_Sync c now)) s = None
            \<and> entryCount (defaultCache_Sync c now) < entryCount c)
       \<and> (now \<le> expiration e \<longrightarrow>
            fmlookup (entries (defaultCache_Sync c now)) s = Some e)
       \<and> (fmlookup (entries c) s' = None \<longrightarrow>
            fmlookup (entries (defaultCache_Sync c now)) s' = None)
       \<and> ttl (defaultCache_Sync c now) = ttl c
       \<and> keyFunc (defaultCache_Sync c now) = keyFunc c"
proof -
  have "ttl (defaultCache_Sync c now) = ttl c" "keyFunc (defaultCache_Sync c now) = keyFunc c"
    by (simp_all add: defaultCache_Sync_def)
  then show ?thesis
    using assms Sync_count_less [of c s e now] by (simp add: Sync_lookup)
qed

theorem Sync_removes_expired_witness:
  "fmlookup (entries expiringCache) ''a'' = Some \<lparr>value' = 7, expiration = 10\<rparr>
   \<and> fmlookup (entries (defaultCache_Sync expiringCache 11)) ''a'' = None
   \<and> fmlookup (entries (defaultCache_Sync expiringCache 9)) ''a''
       = Some \<lparr>value' = 7, expiration = 10\<rparr>
   \<and> entryCount (defaultCache_Sync expiringCache 11) < entryCount expiringCache"
proof -
  have l: "fmlookup (entries expiringCache) ''a'' = Some \<lparr>value' = 7, expiration = 10\<rparr>"
    by (simp add: expiringCache_def)
  show ?thesis
    using l Sync_removes_expired [OF l, of 11] Sync_removes_expired [OF l, of 9]
    by simp
qed

text \<open>
  C3 as stated fails at the instant of expiry: an entry with \<open>expiresAt = now\<close> survives
  \<open>Sync\<close> and the number of entries is unchanged.
\<close>

theorem Sync_at_expiry_counterexample:
  "fmlookup (entries expiringCache) ''a'' = Some \<lparr>value' = 7, expiration = 10\<rparr>
   \<and> (10::int) \<le> 10
   \<and> fmlookup (entries (defaultCache_Sync expiringCache 10)) ''a''
       = Some \<lparr>value' = 7, expiration = 10\<rparr>
   \<and> entryCount (defaultCache_Sync expiringCache 10) = entryCount expiringCache"
  by (simp add: defaultCache_Sync_def expired_def After_def expiringCache_def entryCount_def)

section \<open>Properties of the render cache\<close>

lemma renderCache_same: "cache rc = Some c \<Longrightarrow> rc\<lparr>cache := Some c\<rparr> = rc"
  by (cases rc) simp

text \<open>
  C8: storing a \<open>nil\<close> slice stores \<open>nil\<close> (not an empty slice), and a \<open>Get\<close> of that key
  before expiry returns \<open>nil\<close> and \<open>true\<close>, which differs from the \<open>nil\<close> and \<open>false\<close> of a
  miss. A stored slice that is not \<open>nil\<close> is returned as the list of the copies of its
  elements, and \<open>Set\<close> of such a slice stores the list of the copies of its elements.
\<close>

theorem renderCache_nil_is_a_hit:
  assumes "cache rc = Some c" and "keyFunc c = Some f" and "now' \<le> now + ttl c"
    and "r' = rc\<lparr>cache := Some (c\<lparr>entries :=
            fmupd (f k) \<lparr>value' = None, expiration = now + ttl c\<rparr> (entries c)\<rparr>)\<rparr>"
  shows "renderCache_Set DeepCopy (Some rc) now k None = Inr (Some r')
      \<and> renderCache_Get DeepCopy (Some r') now' k = Inr ((None, True), Some r')
      \<and> (fmlookup (entries c) (f k') = None \<longrightarrow>
            renderCache_Get DeepCopy (Some rc) now' k' = Inr ((None, False), Some rc))
      \<and> (None, True) \<noteq> (None :: 'a list option, False)
      \<and> (fmlookup (entries c) (f k') = Some \<lparr>value' = Some objs, expiration = t\<rparr> \<and> now' \<le> t \<longrightarrow>
            renderCache_Get DeepCopy (Some rc) now' k'
              = Inr ((Some (map DeepCopy objs), True), Some rc))
      \<and> renderCache_Set DeepCopy (Some rc) now k (Some objs)
          = Inr (Some (rc\<lparr>cache := Some (c\<lparr>entries :=
              fmupd (f k) \<lparr>value' = Some (map DeepCopy objs), expiration = now + ttl c\<rparr>
                (entries c)\<rparr>)\<rparr>))"
proof -
  have s1: "renderCache_Set DeepCopy (Some rc) now k None = Inr (Some r')"
    using assms by (simp add: renderCache_Set_def defaultCache_Set_def)
  have s3: "renderCache_Get DeepCopy (Some r') now' k = Inr ((None, True), Some r')"
    using assms by (simp add: renderCache_Get_def defaultCache_Get_def After_def)
  have s4: "fmlookup (entries c) (f k') = None \<longrightarrow>
            renderCache_Get DeepCopy (Some rc) now' k' = Inr ((None, False), Some rc)"
    using assms(1,2) by (simp add: renderCache_Get_def defaultCache_Get_def renderCache_same)
  have s5: "fmlookup (entries c) (f k') = Some \<lparr>value' = Some objs, expiration = t\<rparr> \<and> now' \<le> t \<longrightarrow>
            renderCache_Get DeepCopy (Some rc) now' k'
              = Inr ((Some (map DeepCopy objs), True), Some rc)"
    using assms(1,2)
    by (simp add: renderCache_Get_def defaultCache_Get_def After_def renderCache_same)
  have s6: "renderCache_Set DeepCopy (Some rc) now k (Some objs)
          = Inr (Some (rc\<lparr>cache := Some (c\<lparr>entries :=
              fmupd (f k) \<lparr>value' = Some (map DeepCopy objs), expiration = now + ttl c\<rparr>
                (entries c)\<rparr>)\<rparr>))"
    using assms(1,2) by (simp add: renderCache_Set_def defaultCache_Set_def)
  show ?thesis by (intro conjI s1 s3 s4 s5 s6) simp
qed

theorem renderCache_nil_is_a_hit_witness:
  "renderCache_Set Suc (Some sampleRender) 0 (KString ''a'') None = Inr (Some sampleRenderNil)
   \<and> renderCache_Get Suc (Some sampleRenderNil) 5 (KString ''a'')
       = Inr ((None, True), Some sampleRenderNil)
   \<and> renderCache_Get Suc (Some sampleRender) 5 (KString ''b'')
       = Inr ((None, False), Some sampleRender)"
proof -
  let ?c = "New (\<lambda>k. []) [WithTTL 10] :: nat list option defaultCache"
  have c: "cache sampleRender = Some ?c" by (simp add: sampleRender_def)
  have k: "keyFunc ?c = Some (DefaultKeyFunc (\<lambda>k. []))"
    by (simp add: New_def applyAll_def WithTTL_def Let_def)
  have t: "ttl ?c = 10" by (simp add: New_def applyAll_def WithTTL_def Let_def)
  have e: "entries ?c = fmempty" by (simp add: New_def Let_def)
  have le: "(5::int) \<le> 0 + ttl ?c" by (simp add: t)
  have r: "sampleRenderNil = sampleRender\<lparr>cache := Some (?c\<lparr>entries :=
            fmupd (DefaultKeyFunc (\<lambda>k. []) (KString ''a''))
              \<lparr>value' = None, expiration = 0 + ttl ?c\<rparr> (entries ?c)\<rparr>)\<rparr>"
    by (simp add: sampleRenderNil_def sampleRender_def New_def applyAll_def WithTTL_def Let_def)
  show ?thesis
    using renderCache_nil_is_a_hit [OF c k le r, of Suc "KString ''b''"]
    by (simp add: e)
qed

section \<open>Properties of DeepMerge\<close>

lemma map_of_map_keyed:
  "map_of (map (\<lambda>(k, v). (k, f k v)) xs) k = map_option (f k) (map_of xs k)"
  by (induction xs) auto




lemma DeepCloneMap_lookup:
  "DeepCloneMap (Some m) = Some r \<Longrightarrow> map_of r k = map_option DeepCloneValue (map_of m k)"
  by (auto simp add: DeepCloneMap_def map_of_map_keyed [of "\<lambda>k. DeepCloneValue"])



text \<open>
  C6: with both inputs \<open>nil\<close> the result is the empty map; with one input \<open>nil\<close> the result is
  \<open>DeepCloneMap\<close> of the other, that is, the same keys with every value cloned.
\<close>

theorem DeepMerge_identity_laws:
  "DeepMerge None None = Some []
   \<and> DeepMerge (Some base) None = DeepCloneMap (Some base)
   \<and> DeepMerge None (Some overlay) = DeepCloneMap (Some overlay)
   \<and> DeepCloneMap (Some base) = Some (map (\<lambda>(k, v). (k, DeepCloneValue v)) base)
   \<and> DeepCloneMap None = None"
  by (simp add: DeepCloneMap_def)

end
